theory Spec2Isabelle
  imports Complex_Main "HOL-Library.AList"
begin

section \<open>Python values of the exchange connector\<close>

text \<open>
  The connector (\<^verbatim>\<open>connectivity/calls.py\<close>) works on what \<^verbatim>\<open>r.json()\<close> returns and
  rewrites fields of it to \<^verbatim>\<open>Decimal\<close> and \<^verbatim>\<open>datetime\<close> values. A decimal is kept
  as CPython keeps it: sign, coefficient and exponent (\<^verbatim>\<open>Decimal('2.0')\<close> has coefficient
  20 and exponent -1), or one of the special values.
\<close>

datatype decimal =
    Dec bool nat int
  | DecInf bool
  | DecNaN bool bool nat

text \<open>
  \<^verbatim>\<open>PDatetime t\<close> is \<^verbatim>\<open>datetime.datetime.fromtimestamp(t)\<close>, named by its POSIX
  timestamp. Strings are lists of 8-bit characters (code points below 256). A JSON
  number with a fraction or an exponent (a Python float) has no constructor here: the
  exchange sends quantities as strings and times as strings or integers.
\<close>

datatype pyval =
    PNone
  | PBool bool
  | PInt int
  | PStr string
  | PDecimal decimal
  | PDatetime int
  | PList "pyval list"
  | PDict "(string \<times> pyval) list"

text \<open>
  The exceptions that reach a caller. \<^verbatim>\<open>DateRangeError\<close> stands for what
  \<^verbatim>\<open>fromtimestamp\<close> raises on a timestamp outside the years 1 to 9999 (ValueError,
  OverflowError or OSError, by magnitude and platform); it is raised outside every
  \<^verbatim>\<open>try\<close> of the source. \<^verbatim>\<open>TransportError\<close> stands for every failure of the
  \<^verbatim>\<open>requests\<close> round trip and of \<^verbatim>\<open>r.json()\<close>.
\<close>

datatype error =
    APIError pyval
  | ValueError
  | TypeError
  | KeyError pyval
  | IndexError
  | InvalidOperation
  | OverflowError
  | DateRangeError
  | AttributeError
  | TransportError string

definition bindE :: "error + 'a \<Rightarrow> ('a \<Rightarrow> error + 'b) \<Rightarrow> error + 'b" where
  "bindE m f = (case m of Inl e \<Rightarrow> Inl e | Inr x \<Rightarrow> f x)"

fun mapE :: "('a \<Rightarrow> error + 'b) \<Rightarrow> 'a list \<Rightarrow> error + 'b list" where
  "mapE f [] = Inr []"
| "mapE f (x # xs) = bindE (f x) (\<lambda>y. bindE (mapE f xs) (\<lambda>ys. Inr (y # ys)))"

subsection \<open>Characters, digits and whitespace\<close>

definition is_digit :: "char \<Rightarrow> bool" where
  "is_digit c = (48 \<le> (of_char c :: nat) \<and> (of_char c :: nat) \<le> 57)"

definition digit_val :: "char \<Rightarrow> nat" where
  "digit_val c = of_char c - 48"

definition digit_char :: "nat \<Rightarrow> char" where
  "digit_char n = char_of (48 + n)"

definition digits_val :: "string \<Rightarrow> nat" where
  "digits_val ds = foldl (\<lambda>a c. 10 * a + digit_val c) 0 ds"

text \<open>\<^verbatim>\<open>str.isspace\<close> on the code points below 256.\<close>

definition is_space :: "char \<Rightarrow> bool" where
  "is_space c = ((of_char c :: nat) \<in> {9, 10, 11, 12, 13, 28, 29, 30, 31, 32, 133, 160})"

definition strip :: "string \<Rightarrow> string" where
  "strip s = rev (dropWhile is_space (rev (dropWhile is_space s)))"

definition lower_char :: "char \<Rightarrow> char" where
  "lower_char c = (if 65 \<le> (of_char c :: nat) \<and> (of_char c :: nat) \<le> 90
                   then char_of ((of_char c :: nat) + 32) else c)"

text \<open>
  \<^verbatim>\<open>str.upper\<close> on ASCII; \<^verbatim>\<open>hexdigest()\<close>, its only argument in the source, is made
  of the characters 0-9 and a-f.
\<close>

definition upper_char :: "char \<Rightarrow> char" where
  "upper_char c = (if 97 \<le> (of_char c :: nat) \<and> (of_char c :: nat) \<le> 122
                   then char_of ((of_char c :: nat) - 32) else c)"

definition upper :: "string \<Rightarrow> string" where
  "upper s = map upper_char s"

subsection \<open>\<^verbatim>\<open>int(x)\<close> and \<^verbatim>\<open>str(n)\<close>\<close>

text \<open>
  The body of an integer literal after the sign: digits, with single underscores
  allowed between two digits.
\<close>

fun int_body_ok :: "string \<Rightarrow> bool" where
  "int_body_ok [] = False"
| "int_body_ok [c] = is_digit c"
| "int_body_ok (c # d # r) =
     (is_digit c \<and> (if d = CHR ''_'' then int_body_ok r else int_body_ok (d # r)))"

definition split_sign :: "string \<Rightarrow> bool \<times> string" where
  "split_sign t =
     (case t of
        [] \<Rightarrow> (False, [])
      | c # r \<Rightarrow> if c = CHR ''-'' then (True, r)
                 else if c = CHR ''+'' then (False, r) else (False, c # r))"

definition int_of_str :: "string \<Rightarrow> error + int" where
  "int_of_str s =
     (let (neg, body) = split_sign (strip s)
      in if int_body_ok body
         then Inr ((if neg then - 1 else 1) * int (digits_val (filter (\<lambda>c. c \<noteq> CHR ''_'') body)))
         else Inl ValueError)"

text \<open>
  \<^verbatim>\<open>int(Decimal)\<close> truncates toward zero; NaN raises ValueError, an infinity
  OverflowError.
\<close>

definition int_of_decimal :: "decimal \<Rightarrow> error + int" where
  "int_of_decimal d =
     (case d of
        Dec neg c e \<Rightarrow>
          Inr ((if neg then - 1 else 1) *
               (if 0 \<le> e then int c * 10 ^ nat e else int c div 10 ^ nat (- e)))
      | DecInf _ \<Rightarrow> Inl OverflowError
      | DecNaN _ _ _ \<Rightarrow> Inl ValueError)"

definition py_int :: "pyval \<Rightarrow> error + int" where
  "py_int v =
     (case v of
        PInt n \<Rightarrow> Inr n
      | PBool b \<Rightarrow> Inr (if b then 1 else 0)
      | PStr s \<Rightarrow> int_of_str s
      | PDecimal d \<Rightarrow> int_of_decimal d
      | _ \<Rightarrow> Inl TypeError)"

fun str_nat :: "nat \<Rightarrow> string" where
  "str_nat n = (if n < 10 then [digit_char n] else str_nat (n div 10) @ [digit_char (n mod 10)])"

declare str_nat.simps [simp del]

definition str_int :: "int \<Rightarrow> string" where
  "str_int n = (if n < 0 then CHR ''-'' # str_nat (nat (- n)) else str_nat (nat n))"

subsection \<open>Truth value of an object\<close>

definition truthy :: "pyval \<Rightarrow> bool" where
  "truthy v =
     (case v of
        PNone \<Rightarrow> False
      | PBool b \<Rightarrow> b
      | PInt n \<Rightarrow> n \<noteq> 0
      | PStr s \<Rightarrow> s \<noteq> []
      | PDecimal d \<Rightarrow> (case d of Dec _ c _ \<Rightarrow> c \<noteq> 0 | _ \<Rightarrow> True)
      | PDatetime _ \<Rightarrow> True
      | PList xs \<Rightarrow> xs \<noteq> []
      | PDict kvs \<Rightarrow> kvs \<noteq> [])"

subsection \<open>\<^verbatim>\<open>Decimal(x)\<close>\<close>

text \<open>
  The text after the exponent indicator: an optional sign and at least one digit.
\<close>

definition exponent_of :: "string \<Rightarrow> int option" where
  "exponent_of t =
     (let (neg, ds) = split_sign t
      in if ds \<noteq> [] \<and> list_all is_digit ds
         then Some ((if neg then - 1 else 1) * int (digits_val ds)) else None)"

text \<open>
  A numeric string after its sign: \<^verbatim>\<open>Inf\<close>, \<^verbatim>\<open>Infinity\<close>, \<^verbatim>\<open>NaN\<close> or \<^verbatim>\<open>sNaN\<close> with
  optional diagnostic digits (letters in either case), or digits with an optional point
  and an optional exponent, with at least one digit before the exponent. The
  coefficient is every digit written; the exponent is lowered by the number of digits
  after the point. Nothing is rounded.
\<close>

definition decimal_of_body :: "bool \<Rightarrow> string \<Rightarrow> decimal option" where
  "decimal_of_body neg body =
     (let low = map lower_char body in
      if low = ''inf'' \<or> low = ''infinity'' then Some (DecInf neg)
      else if take 3 low = ''nan'' \<and> list_all is_digit (drop 3 low)
        then Some (DecNaN neg False (digits_val (drop 3 low)))
      else if take 4 low = ''snan'' \<and> list_all is_digit (drop 4 low)
        then Some (DecNaN neg True (digits_val (drop 4 low)))
      else
        let mant = takeWhile (\<lambda>c. lower_char c \<noteq> CHR ''e'') body;
            rest = dropWhile (\<lambda>c. lower_char c \<noteq> CHR ''e'') body;
            ip = takeWhile (\<lambda>c. c \<noteq> CHR ''.'') mant;
            fp = (case dropWhile (\<lambda>c. c \<noteq> CHR ''.'') mant of [] \<Rightarrow> [] | _ # f \<Rightarrow> f);
            ex = (case rest of [] \<Rightarrow> Some 0 | _ # t \<Rightarrow> exponent_of t)
        in if list_all is_digit ip \<and> list_all is_digit fp \<and> ip @ fp \<noteq> []
           then (case ex of
                   None \<Rightarrow> None
                 | Some e \<Rightarrow> Some (Dec neg (digits_val (ip @ fp)) (e - int (length fp))))
           else None)"

text \<open>
  \<^verbatim>\<open>Decimal(s)\<close> for a string: surrounding whitespace and every underscore are dropped,
  then the sign is read. A string that is no numeric string raises
  \<^verbatim>\<open>decimal.InvalidOperation\<close>.
\<close>

definition decimal_of_str :: "string \<Rightarrow> error + decimal" where
  "decimal_of_str s =
     (let (neg, body) = split_sign (filter (\<lambda>c. c \<noteq> CHR ''_'') (strip s))
      in case decimal_of_body neg body of
           None \<Rightarrow> Inl InvalidOperation
         | Some d \<Rightarrow> Inr d)"

definition int_like :: "pyval \<Rightarrow> int option" where
  "int_like v = (case v of PInt n \<Rightarrow> Some n | PBool b \<Rightarrow> Some (if b then 1 else 0) | _ \<Rightarrow> None)"

definition digit_like :: "pyval \<Rightarrow> bool" where
  "digit_like v = (case int_like v of None \<Rightarrow> False | Some n \<Rightarrow> 0 \<le> n \<and> n \<le> 9)"

definition digits_of :: "pyval list \<Rightarrow> nat" where
  "digits_of ds = foldl (\<lambda>a v. 10 * a + nat (case int_like v of None \<Rightarrow> 0 | Some n \<Rightarrow> n)) 0 ds"

text \<open>
  \<^verbatim>\<open>Decimal(x)\<close> for a list: CPython reads a three-element sequence of sign (0 or 1),
  digits and exponent (an integer, or \<^verbatim>\<open>'F'\<close>, \<^verbatim>\<open>'n'\<close>, \<^verbatim>\<open>'N'\<close> for the special
  values) and raises ValueError for every other sequence.
\<close>

definition decimal_of_list :: "pyval list \<Rightarrow> error + decimal" where
  "decimal_of_list xs =
     (case xs of
        [s, PList ds, e] \<Rightarrow>
          (if (int_like s = Some 0 \<or> int_like s = Some 1) \<and> list_all digit_like ds
           then (case e of
                   PStr t \<Rightarrow>
                     if t = ''F'' then Inr (DecInf (int_like s = Some 1))
                     else if t = ''n'' then Inr (DecNaN (int_like s = Some 1) False (digits_of ds))
                     else if t = ''N'' then Inr (DecNaN (int_like s = Some 1) True (digits_of ds))
                     else Inl ValueError
                 | _ \<Rightarrow>
                     (case int_like e of
                        None \<Rightarrow> Inl ValueError
                      | Some x \<Rightarrow> Inr (Dec (int_like s = Some 1) (digits_of ds) x)))
           else Inl ValueError)
      | _ \<Rightarrow> Inl ValueError)"

definition Decimal :: "pyval \<Rightarrow> error + decimal" where
  "Decimal v =
     (case v of
        PStr s \<Rightarrow> decimal_of_str s
      | PInt n \<Rightarrow> Inr (Dec (n < 0) (nat \<bar>n\<bar>) 0)
      | PBool b \<Rightarrow> Inr (Dec False (if b then 1 else 0) 0)
      | PDecimal d \<Rightarrow> Inr d
      | PList xs \<Rightarrow> decimal_of_list xs
      | _ \<Rightarrow> Inl TypeError)"

text \<open>The rational number a finite decimal denotes.\<close>

definition dec_value :: "decimal \<Rightarrow> rat option" where
  "dec_value d =
     (case d of
        Dec neg c e \<Rightarrow>
          Some ((if neg then - 1 else 1) *
                (if 0 \<le> e then of_nat c * 10 ^ nat e else of_nat c / 10 ^ nat (- e)))
      | _ \<Rightarrow> None)"

subsection \<open>\<^verbatim>\<open>time.strptime\<close>, \<^verbatim>\<open>time.mktime\<close> and \<^verbatim>\<open>datetime.fromtimestamp\<close>\<close>

text \<open>
  \<^verbatim>\<open>time.strptime\<close> turns the format into a regular expression, one group of
  alternatives per directive, and matches it against the start of the string. Each
  alternative here is a sequence of character classes; the first alternative that
  matches is taken. (Every directive of the two formats of the source is followed by a
  separator that is no digit, or ends the format, so trying a later alternative after
  an earlier one matched never rescues a match.)
\<close>

type_synonym cclass = "char \<Rightarrow> bool"

definition ch :: "char \<Rightarrow> cclass" where
  "ch x c = (c = x)"

definition rng :: "char \<Rightarrow> char \<Rightarrow> cclass" where
  "rng lo hi c = ((of_char lo :: nat) \<le> of_char c \<and> (of_char c :: nat) \<le> of_char hi)"

fun match_seq :: "cclass list \<Rightarrow> string \<Rightarrow> (string \<times> string) option" where
  "match_seq [] s = Some ([], s)"
| "match_seq (p # ps) [] = None"
| "match_seq (p # ps) (c # s) =
     (if p c then map_option (\<lambda>(m, r). (c # m, r)) (match_seq ps s) else None)"

fun match_alt :: "cclass list list \<Rightarrow> string \<Rightarrow> (string \<times> string) option" where
  "match_alt [] s = None"
| "match_alt (a # as) s =
     (case match_seq a s of Some r \<Rightarrow> Some r | None \<Rightarrow> match_alt as s)"

text \<open>
  The directives, as \<^verbatim>\<open>_strptime.TimeRE\<close> lists them:
  \<^verbatim>\<open>%Y\<close> is \<^verbatim>\<open>\d\d\d\d\<close>, \<^verbatim>\<open>%m\<close> is \<^verbatim>\<open>1[0-2]|0[1-9]|[1-9]\<close>,
  \<^verbatim>\<open>%d\<close> is \<^verbatim>\<open>3[0-1]|[1-2]\d|0[1-9]|[1-9]| [1-9]\<close>, \<^verbatim>\<open>%H\<close> is \<^verbatim>\<open>2[0-3]|[0-1]\d|\d\<close>,
  \<^verbatim>\<open>%M\<close> is \<^verbatim>\<open>[0-5]\d|\d\<close>, \<^verbatim>\<open>%S\<close> is \<^verbatim>\<open>6[0-1]|[0-5]\d|\d\<close> and
  \<^verbatim>\<open>%f\<close> is \<^verbatim>\<open>[0-9]{1,6}\<close> (greedy: the longest run first).
\<close>

definition re_Y :: "cclass list list" where
  "re_Y = [[is_digit, is_digit, is_digit, is_digit]]"

definition re_m :: "cclass list list" where
  "re_m = [[ch CHR ''1'', rng CHR ''0'' CHR ''2''], [ch CHR ''0'', rng CHR ''1'' CHR ''9''],
           [rng CHR ''1'' CHR ''9'']]"

definition re_d :: "cclass list list" where
  "re_d = [[ch CHR ''3'', rng CHR ''0'' CHR ''1''], [rng CHR ''1'' CHR ''2'', is_digit],
           [ch CHR ''0'', rng CHR ''1'' CHR ''9''], [rng CHR ''1'' CHR ''9''],
           [ch CHR '' '', rng CHR ''1'' CHR ''9'']]"

definition re_H :: "cclass list list" where
  "re_H = [[ch CHR ''2'', rng CHR ''0'' CHR ''3''], [rng CHR ''0'' CHR ''1'', is_digit], [is_digit]]"

definition re_M :: "cclass list list" where
  "re_M = [[rng CHR ''0'' CHR ''5'', is_digit], [is_digit]]"

definition re_S :: "cclass list list" where
  "re_S = [[ch CHR ''6'', rng CHR ''0'' CHR ''1''], [rng CHR ''0'' CHR ''5'', is_digit], [is_digit]]"

definition re_f :: "cclass list list" where
  "re_f = [replicate 6 is_digit, replicate 5 is_digit, replicate 4 is_digit,
           replicate 3 is_digit, replicate 2 is_digit, replicate 1 is_digit]"

text \<open>A literal character of the format, and the \<^verbatim>\<open>\s+\<close> a blank of the format becomes.\<close>

definition expect :: "char \<Rightarrow> string \<Rightarrow> string option" where
  "expect x s = (case s of [] \<Rightarrow> None | c # r \<Rightarrow> if c = x then Some r else None)"

definition spaces1 :: "string \<Rightarrow> string option" where
  "spaces1 s = (case s of [] \<Rightarrow> None | c # r \<Rightarrow> if is_space c then Some (dropWhile is_space r) else None)"

text \<open>The value of a matched group: \<^verbatim>\<open>int(...)\<close> of its text (a day may start with a blank).\<close>

definition group_val :: "string \<Rightarrow> nat" where
  "group_val m = digits_val (dropWhile is_space m)"

record struct_time =
  tm_year :: nat
  tm_mon :: nat
  tm_mday :: nat
  tm_hour :: nat
  tm_min :: nat
  tm_sec :: nat

text \<open>
  The part both formats share, \<^verbatim>\<open>%Y-%m-%d %H:%M:%S\<close>: the fields read and the text left.
\<close>

definition parse_date_time :: "string \<Rightarrow> (struct_time \<times> string) option" where
  "parse_date_time s =
     Option.bind (match_alt re_Y s) (\<lambda>(y, s1).
     Option.bind (expect CHR ''-'' s1) (\<lambda>s2.
     Option.bind (match_alt re_m s2) (\<lambda>(m, s3).
     Option.bind (expect CHR ''-'' s3) (\<lambda>s4.
     Option.bind (match_alt re_d s4) (\<lambda>(d, s5).
     Option.bind (spaces1 s5) (\<lambda>s6.
     Option.bind (match_alt re_H s6) (\<lambda>(h, s7).
     Option.bind (expect CHR '':'' s7) (\<lambda>s8.
     Option.bind (match_alt re_M s8) (\<lambda>(mi, s9).
     Option.bind (expect CHR '':'' s9) (\<lambda>s10.
     Option.bind (match_alt re_S s10) (\<lambda>(sec, s11).
       Some (\<lparr>tm_year = group_val y, tm_mon = group_val m, tm_mday = group_val d,
              tm_hour = group_val h, tm_min = group_val mi, tm_sec = group_val sec\<rparr>,
             s11))))))))))))"

definition leap_year :: "nat \<Rightarrow> bool" where
  "leap_year y = (y mod 4 = 0 \<and> (y mod 100 \<noteq> 0 \<or> y mod 400 = 0))"

definition days_in_month :: "nat \<Rightarrow> nat \<Rightarrow> nat" where
  "days_in_month y m =
     (if m = 2 then (if leap_year y then 29 else 28)
      else if m = 4 \<or> m = 6 \<or> m = 9 \<or> m = 11 then 30 else 31)"

text \<open>
  \<^verbatim>\<open>_strptime\<close> builds \<^verbatim>\<open>datetime.date(year, month, day)\<close> for the day of the year,
  which raises ValueError on a day the month does not have and on the year 0.
\<close>

definition valid_date :: "struct_time \<Rightarrow> bool" where
  "valid_date st =
     (1 \<le> tm_year st \<and> tm_year st \<le> 9999 \<and> 1 \<le> tm_mon st \<and> tm_mon st \<le> 12 \<and>
      1 \<le> tm_mday st \<and> tm_mday st \<le> days_in_month (tm_year st) (tm_mon st))"

text \<open>
  \<^verbatim>\<open>time.strptime(x, fmt)\<close> for the two formats of the source: \<^verbatim>\<open>fractional\<close> selects
  \<^verbatim>\<open>'%Y-%m-%d %H:%M:%S.%f'\<close>, otherwise \<^verbatim>\<open>'%Y-%m-%d %H:%M:%S'\<close>. A value that is no
  string raises TypeError; a string that does not match, or has text left after the
  match, raises ValueError. The result is a \<^verbatim>\<open>struct_time\<close>, which has no field for the
  fraction of a second: the digits of \<^verbatim>\<open>%f\<close> are matched and dropped.
\<close>

definition time_strptime :: "pyval \<Rightarrow> bool \<Rightarrow> error + struct_time" where
  "time_strptime x fractional =
     (case x of
        PStr s \<Rightarrow>
          (case parse_date_time s of
             None \<Rightarrow> Inl ValueError
           | Some (st, rest) \<Rightarrow>
               (case (if fractional
                      then Option.bind (expect CHR ''.'' rest) (\<lambda>r. map_option snd (match_alt re_f r))
                      else Some rest) of
                  None \<Rightarrow> Inl ValueError
                | Some left \<Rightarrow>
                    if left \<noteq> [] then Inl ValueError
                    else if valid_date st then Inr st else Inl ValueError))
      | _ \<Rightarrow> Inl TypeError)"

text \<open>Days from 1970-01-01 to a date of the proleptic Gregorian calendar.\<close>

definition days_from_civil :: "int \<Rightarrow> int \<Rightarrow> int \<Rightarrow> int" where
  "days_from_civil y m d =
     (let y' = (if m \<le> 2 then y - 1 else y);
          era = y' div 400;
          yoe = y' - era * 400;
          doy = (153 * (if m > 2 then m - 3 else m + 9) + 2) div 5 + d - 1;
          doe = yoe * 365 + yoe div 4 - yoe div 100 + doy
      in era * 146097 + doe - 719468)"

text \<open>
  The local time zone is a parameter: \<^verbatim>\<open>tz\<close> is its offset from UTC in seconds, taken
  as fixed (no daylight-saving changes). \<^verbatim>\<open>time.mktime\<close> reads a \<^verbatim>\<open>struct_time\<close> as
  local time and returns the POSIX timestamp.
\<close>

definition mktime :: "int \<Rightarrow> struct_time \<Rightarrow> int" where
  "mktime tz st =
     days_from_civil (int (tm_year st)) (int (tm_mon st)) (int (tm_mday st)) * 86400
       + int (tm_hour st) * 3600 + int (tm_min st) * 60 + int (tm_sec st) - tz"

text \<open>
  \<^verbatim>\<open>datetime.datetime.fromtimestamp(t)\<close>: the local date and time of the timestamp,
  which must fall in the years 1 to 9999.
\<close>

definition fromtimestamp :: "int \<Rightarrow> int \<Rightarrow> error + pyval" where
  "fromtimestamp tz t =
     (if - 62135596800 \<le> t + tz \<and> t + tz \<le> 253402300799 then Inr (PDatetime t)
      else Inl DateRangeError)"

section \<open>\<^verbatim>\<open>calls.py\<close>: timestamps\<close>

text \<open>
  \<^verbatim>\<open>dt(timestamp)\<close>. \<^verbatim>\<open>except_ValueError body handler\<close> is
  \<^verbatim>\<open>try: body  except ValueError: handler\<close>: only ValueError is caught by the two
  \<^verbatim>\<open>try\<close> blocks, every other exception leaves the function where it is raised.
\<close>

definition except_ValueError :: "error + 'a \<Rightarrow> (error + 'a) \<Rightarrow> error + 'a" where
  "except_ValueError body handler =
     (case body of
        Inr x \<Rightarrow> Inr x
      | Inl e \<Rightarrow> if e = ValueError then handler else Inl e)"

definition dt :: "int \<Rightarrow> pyval \<Rightarrow> error + pyval" where
  "dt tz timestamp =
     (if \<not> truthy timestamp then Inr PNone
      else bindE
        (except_ValueError (py_int timestamp)
          (except_ValueError
            (bindE (time_strptime timestamp True) (\<lambda>st. Inr (mktime tz st)))
            (bindE (time_strptime timestamp False) (\<lambda>st. Inr (mktime tz st)))))
        (fromtimestamp tz))"

section \<open>\<^verbatim>\<open>calls.py\<close>: the response hooks\<close>

subsection \<open>Subscription, membership and iteration\<close>

text \<open>
  \<^verbatim>\<open>obj[k]\<close> and \<^verbatim>\<open>obj[k] = v\<close> for a string key: only a dict takes one. A dict is an
  association list with distinct keys, in insertion order; storing under a key it has
  keeps the key's place, as Python does.
\<close>

definition getitem :: "pyval \<Rightarrow> string \<Rightarrow> error + pyval" where
  "getitem obj k =
     (case obj of
        PDict kvs \<Rightarrow> (case map_of kvs k of None \<Rightarrow> Inl (KeyError (PStr k)) | Some v \<Rightarrow> Inr v)
      | _ \<Rightarrow> Inl TypeError)"

definition setitem :: "pyval \<Rightarrow> string \<Rightarrow> pyval \<Rightarrow> error + pyval" where
  "setitem obj k v =
     (case obj of
        PDict kvs \<Rightarrow> Inr (PDict (AList.update k v kvs))
      | _ \<Rightarrow> Inl TypeError)"

text \<open>\<^verbatim>\<open>obj[0]\<close>. The keys of a dict are strings, so 0 is never one of them.\<close>

definition getitem0 :: "pyval \<Rightarrow> error + pyval" where
  "getitem0 obj =
     (case obj of
        PList xs \<Rightarrow> (case xs of [] \<Rightarrow> Inl IndexError | x # _ \<Rightarrow> Inr x)
      | PStr s \<Rightarrow> (case s of [] \<Rightarrow> Inl IndexError | c # _ \<Rightarrow> Inr (PStr [c]))
      | PDict _ \<Rightarrow> Inl (KeyError (PInt 0))
      | _ \<Rightarrow> Inl TypeError)"

fun find_sub :: "string \<Rightarrow> string \<Rightarrow> bool" where
  "find_sub k [] = (k = [])"
| "find_sub k (c # s) = (take (length k) (c # s) = k \<or> find_sub k s)"

text \<open>
  \<^verbatim>\<open>k in obj\<close> for a string \<^verbatim>\<open>k\<close>: a key of a dict, an element of a list, a substring
  of a string; TypeError for an object that is no container.
\<close>

definition contains :: "string \<Rightarrow> pyval \<Rightarrow> error + bool" where
  "contains k obj =
     (case obj of
        PDict kvs \<Rightarrow> Inr (map_of kvs k \<noteq> None)
      | PList xs \<Rightarrow> Inr (List.member xs (PStr k))
      | PStr s \<Rightarrow> Inr (find_sub k s)
      | _ \<Rightarrow> Inl TypeError)"

text \<open>
  The items a \<^verbatim>\<open>for\<close> loop or an unpacking sees: the elements of a list, the
  characters of a string, the keys of a dict.
\<close>

definition py_iter :: "pyval \<Rightarrow> error + pyval list" where
  "py_iter obj =
     (case obj of
        PList xs \<Rightarrow> Inr xs
      | PStr s \<Rightarrow> Inr (map (\<lambda>c. PStr [c]) s)
      | PDict kvs \<Rightarrow> Inr (map (\<lambda>kv. PStr (fst kv)) kvs)
      | _ \<Rightarrow> Inl TypeError)"

subsection \<open>Field coercions\<close>

definition to_Decimal :: "pyval \<Rightarrow> error + pyval" where
  "to_Decimal v = bindE (Decimal v) (\<lambda>d. Inr (PDecimal d))"

definition to_int :: "pyval \<Rightarrow> error + pyval" where
  "to_int v = bindE (py_int v) (\<lambda>n. Inr (PInt n))"

text \<open>\<^verbatim>\<open>response[k] = f(response[k])\<close>: the right-hand side first, then the store.\<close>

definition coerce :: "(pyval \<Rightarrow> error + pyval) \<Rightarrow> string \<Rightarrow> pyval \<Rightarrow> error + pyval" where
  "coerce f k response =
     bindE (getitem response k) (\<lambda>v. bindE (f v) (\<lambda>w. setitem response k w))"

text \<open>\<^verbatim>\<open>if k in response: response[k] = f(response[k])\<close>.\<close>

definition coerce_if_present ::
  "(pyval \<Rightarrow> error + pyval) \<Rightarrow> string \<Rightarrow> pyval \<Rightarrow> error + pyval" where
  "coerce_if_present f k response =
     bindE (contains k response) (\<lambda>b. if b then coerce f k response else Inr response)"

text \<open>A block of such statements, run in order; the first exception ends it.\<close>

fun assign_all :: "(string \<times> (pyval \<Rightarrow> error + pyval)) list \<Rightarrow> pyval \<Rightarrow> error + pyval" where
  "assign_all [] response = Inr response"
| "assign_all ((k, f) # fs) response = bindE (coerce f k response) (assign_all fs)"

fun assign_present ::
  "(string \<times> (pyval \<Rightarrow> error + pyval)) list \<Rightarrow> pyval \<Rightarrow> error + pyval" where
  "assign_present [] response = Inr response"
| "assign_present ((k, f) # fs) response =
     bindE (coerce_if_present f k response) (assign_present fs)"

text \<open>
  \<^verbatim>\<open>for row in response: <body mutating row>\<close>. The rows of a list are changed in
  place. A string or a dict hands its characters or keys to the body, which are no
  part of it; an empty one is left as it is.
\<close>

definition for_each :: "(pyval \<Rightarrow> error + pyval) \<Rightarrow> pyval \<Rightarrow> error + pyval" where
  "for_each body response =
     bindE (py_iter response) (\<lambda>rows.
     bindE (mapE body rows) (\<lambda>rows'.
       Inr (case response of PList _ \<Rightarrow> PList rows' | _ \<Rightarrow> response)))"

subsection \<open>The hooks, class by class\<close>

definition APIAccountBalanceCall_process_response :: "pyval \<Rightarrow> error + pyval" where
  "APIAccountBalanceCall_process_response =
     assign_all
       [(''btc_reserved'', to_Decimal),
        (''btc_available'', to_Decimal),
        (''btc_balance'', to_Decimal),
        (''usd_reserved'', to_Decimal),
        (''usd_available'', to_Decimal),
        (''usd_balance'', to_Decimal),
        (''fee'', to_Decimal)]"

text \<open>\<^verbatim>\<open>response['reason']['__all__'][0]\<close>.\<close>

definition first_reason :: "pyval \<Rightarrow> error + pyval" where
  "first_reason reason = bindE (getitem reason ''__all__'') getitem0"

definition APIBuyLimitOrderBTCEURCall_process_response :: "int \<Rightarrow> pyval \<Rightarrow> error + pyval" where
  "APIBuyLimitOrderBTCEURCall_process_response tz =
     assign_present
       [(''datetime'', dt tz),
        (''price'', to_Decimal),
        (''amount'', to_Decimal),
        (''reason'', first_reason)]"

definition APIEURUSDConversionRateCall_process_response :: "pyval \<Rightarrow> error + pyval" where
  "APIEURUSDConversionRateCall_process_response =
     assign_all [(''buy'', to_Decimal), (''sell'', to_Decimal)]"

text \<open>
  One row of a side of the book: \<^verbatim>\<open>(price, amount)\<close> unpacks the row, which must
  have exactly two items, and the row becomes a dict of the two decimals.
\<close>

definition book_row :: "pyval \<Rightarrow> error + pyval" where
  "book_row row =
     bindE (py_iter row) (\<lambda>items.
       case items of
         [price, amount] \<Rightarrow>
           bindE (Decimal price) (\<lambda>p.
           bindE (Decimal amount) (\<lambda>a.
             Inr (PDict [(''price'', PDecimal p), (''amount'', PDecimal a)])))
       | _ \<Rightarrow> Inl ValueError)"

definition book_side :: "pyval \<Rightarrow> error + pyval" where
  "book_side rows = bindE (py_iter rows) (\<lambda>rs. bindE (mapE book_row rs) (\<lambda>ds. Inr (PList ds)))"

definition APIOrderBookCall_process_response :: "int \<Rightarrow> pyval \<Rightarrow> error + pyval" where
  "APIOrderBookCall_process_response tz =
     assign_all [(''timestamp'', dt tz), (''bids'', book_side), (''asks'', book_side)]"

definition APIOpenOrdersCall_process_response :: "int \<Rightarrow> pyval \<Rightarrow> error + pyval" where
  "APIOpenOrdersCall_process_response tz =
     for_each (assign_all [(''datetime'', dt tz), (''price'', to_Decimal), (''amount'', to_Decimal)])"

definition APISellLimitBTCEUROrderCall_process_response :: "int \<Rightarrow> pyval \<Rightarrow> error + pyval" where
  "APISellLimitBTCEUROrderCall_process_response tz =
     assign_present
       [(''datetime'', dt tz),
        (''price'', to_Decimal),
        (''amount'', to_Decimal)]"

definition APITickerCall_process_response :: "int \<Rightarrow> pyval \<Rightarrow> error + pyval" where
  "APITickerCall_process_response tz =
     assign_all
       [(''last'', to_Decimal),
        (''high'', to_Decimal),
        (''low'', to_Decimal),
        (''volume'', to_Decimal),
        (''timestamp'', dt tz),
        (''bid'', to_Decimal),
        (''ask'', to_Decimal)]"

definition APITransactionsCall_process_response :: "int \<Rightarrow> pyval \<Rightarrow> error + pyval" where
  "APITransactionsCall_process_response tz =
     for_each (assign_all [(''date'', dt tz), (''price'', to_Decimal), (''amount'', to_Decimal)])"

definition APIUnconfirmedBitcoinDepositsCall_process_response :: "pyval \<Rightarrow> error + pyval" where
  "APIUnconfirmedBitcoinDepositsCall_process_response =
     assign_all [(''amount'', to_Decimal), (''confirmations'', to_int)]"

definition APIUserTransactionsCall_process_response :: "int \<Rightarrow> pyval \<Rightarrow> error + pyval" where
  "APIUserTransactionsCall_process_response tz =
     for_each
       (assign_all
          [(''datetime'', dt tz), (''usd'', to_Decimal), (''btc'', to_Decimal),
           (''fee'', to_Decimal)])"

definition APIWithdrawalRequestsCall_process_response :: "int \<Rightarrow> pyval \<Rightarrow> error + pyval" where
  "APIWithdrawalRequestsCall_process_response tz =
     for_each (assign_all [(''datetime'', dt tz), (''amount'', to_Decimal)])"

text \<open>The endpoint classes of the module (the two abstract bases have no URL).\<close>

datatype api_class =
    APIAccountBalanceCall
  | APIBitcoinDepositAddressCall
  | APIBitcoinWithdrawalCall
  | APIBuyLimitOrderBTCEURCall
  | APICancelOrderCall
  | APIEURUSDConversionRateCall
  | APIOrderBookCall
  | APIOpenOrdersCall
  | APIRippleDepositAddressCall
  | APIRippleWithdrawalCall
  | APISellLimitBTCEUROrderCall
  | APITickerCall
  | APITransactionsCall
  | APIUnconfirmedBitcoinDepositsCall
  | APIUserTransactionsCall
  | APIWithdrawalRequestsCall

text \<open>
  \<^verbatim>\<open>self._process_response(response)\<close>: the response as the hook leaves it, and what the
  hook returns. Every hook of the module changes the response in place and returns
  \<^verbatim>\<open>None\<close>; a class without a hook of its own inherits the base one, which only returns.
\<close>

definition in_place :: "error + pyval \<Rightarrow> error + pyval \<times> pyval option" where
  "in_place m = bindE m (\<lambda>response. Inr (response, None))"

definition process_response :: "int \<Rightarrow> api_class \<Rightarrow> pyval \<Rightarrow> error + pyval \<times> pyval option" where
  "process_response tz cls response =
     in_place
       (case cls of
          APIAccountBalanceCall \<Rightarrow> APIAccountBalanceCall_process_response response
        | APIBuyLimitOrderBTCEURCall \<Rightarrow> APIBuyLimitOrderBTCEURCall_process_response tz response
        | APIEURUSDConversionRateCall \<Rightarrow> APIEURUSDConversionRateCall_process_response response
        | APIOrderBookCall \<Rightarrow> APIOrderBookCall_process_response tz response
        | APIOpenOrdersCall \<Rightarrow> APIOpenOrdersCall_process_response tz response
        | APISellLimitBTCEUROrderCall \<Rightarrow> APISellLimitBTCEUROrderCall_process_response tz response
        | APITickerCall \<Rightarrow> APITickerCall_process_response tz response
        | APITransactionsCall \<Rightarrow> APITransactionsCall_process_response tz response
        | APIUnconfirmedBitcoinDepositsCall \<Rightarrow>
            APIUnconfirmedBitcoinDepositsCall_process_response response
        | APIUserTransactionsCall \<Rightarrow> APIUserTransactionsCall_process_response tz response
        | APIWithdrawalRequestsCall \<Rightarrow> APIWithdrawalRequestsCall_process_response tz response
        | _ \<Rightarrow> Inr response)"

section \<open>\<^verbatim>\<open>calls.py\<close>: sending a call\<close>

text \<open>Class attributes: \<^verbatim>\<open>url\<close>, and \<^verbatim>\<open>method\<close>, which \<^verbatim>\<open>APIPrivateCall\<close> sets to \<^verbatim>\<open>'post'\<close>.\<close>

definition is_private :: "api_class \<Rightarrow> bool" where
  "is_private cls =
     (case cls of
        APIEURUSDConversionRateCall \<Rightarrow> False
      | APIOrderBookCall \<Rightarrow> False
      | APITickerCall \<Rightarrow> False
      | APITransactionsCall \<Rightarrow> False
      | _ \<Rightarrow> True)"

definition http_method :: "api_class \<Rightarrow> string" where
  "http_method cls = (if is_private cls then ''post'' else ''get'')"

definition url :: "api_class \<Rightarrow> string" where
  "url cls =
     (case cls of
        APIAccountBalanceCall \<Rightarrow> ''balance/''
      | APIBitcoinDepositAddressCall \<Rightarrow> ''bitcoin_deposit_address/''
      | APIBitcoinWithdrawalCall \<Rightarrow> ''bitcoin_withdrawal/''
      | APIBuyLimitOrderBTCEURCall \<Rightarrow> ''buy/btceur/''
      | APICancelOrderCall \<Rightarrow> ''cancel_order/''
      | APIEURUSDConversionRateCall \<Rightarrow> ''eur_usd/''
      | APIOrderBookCall \<Rightarrow> ''order_book/btceur/''
      | APIOpenOrdersCall \<Rightarrow> ''open_orders/all/''
      | APIRippleDepositAddressCall \<Rightarrow> ''ripple_address/''
      | APIRippleWithdrawalCall \<Rightarrow> ''ripple_withdrawal/''
      | APISellLimitBTCEUROrderCall \<Rightarrow> ''sell/btceur/''
      | APITickerCall \<Rightarrow> ''ticker/btceur/''
      | APITransactionsCall \<Rightarrow> ''transactions/btceur/''
      | APIUnconfirmedBitcoinDepositsCall \<Rightarrow> ''unconfirmed_btc/''
      | APIUserTransactionsCall \<Rightarrow> ''user_transactions/''
      | APIWithdrawalRequestsCall \<Rightarrow> ''withdrawal_requests/'')"

text \<open>
  The network is a parameter: \<^verbatim>\<open>http verb url params\<close> is the value of
  \<^verbatim>\<open>requests.get(url, params=params).json()\<close> or \<^verbatim>\<open>requests.post(url, data=params).json()\<close>,
  or the exception the round trip or the decoding raises.
\<close>

datatype http_verb = GET | POST

type_synonym transport = "http_verb \<Rightarrow> string \<Rightarrow> (string \<times> pyval) list \<Rightarrow> error + pyval"

text \<open>\<^verbatim>\<open>isinstance(response, dict) and 'error' in response\<close>, with \<^verbatim>\<open>response['error']\<close>.\<close>

definition api_error :: "pyval \<Rightarrow> pyval option" where
  "api_error response = (case response of PDict kvs \<Rightarrow> map_of kvs ''error'' | _ \<Rightarrow> None)"

text \<open>
  \<^verbatim>\<open>APICall.call\<close>, with the hook \<^verbatim>\<open>self._process_response\<close>, and the attributes
  \<^verbatim>\<open>self.method\<close> and \<^verbatim>\<open>self.url\<close> of the object it is called on. With a method that
  is neither \<^verbatim>\<open>'get'\<close> nor \<^verbatim>\<open>'post'\<close>, \<^verbatim>\<open>r\<close> stays \<^verbatim>\<open>None\<close> and \<^verbatim>\<open>r.json()\<close> raises
  AttributeError.
\<close>

definition APICall_call ::
  "transport \<Rightarrow> (pyval \<Rightarrow> error + pyval \<times> pyval option) \<Rightarrow> string \<Rightarrow> string \<Rightarrow>
   string \<Rightarrow> (string \<times> pyval) list \<Rightarrow> error + pyval" where
  "APICall_call http hook meth url_attr prefix_url params =
     (let target = prefix_url @ url_attr in
      bindE (if meth = ''get'' then http GET target params
             else if meth = ''post'' then http POST target params
             else Inl AttributeError)
        (\<lambda>response.
           case api_error response of
             Some err \<Rightarrow> Inl (APIError err)
           | None \<Rightarrow>
               bindE (hook response) (\<lambda>(response', new_response).
                 Inr (case new_response of None \<Rightarrow> response' | Some r \<Rightarrow> r))))"

record credentials =
  client_id :: string
  api_key :: string
  api_secret :: string

text \<open>\<^verbatim>\<open>int(x)\<close> of a float: the fraction is cut off, toward zero.\<close>

definition int_of_float :: "real \<Rightarrow> int" where
  "int_of_float x = (if 0 \<le> x then \<lfloor>x\<rfloor> else \<lceil>x\<rceil>)"

text \<open>
  \<^verbatim>\<open>_get_nonce\<close>, given the reading \<^verbatim>\<open>now\<close> of \<^verbatim>\<open>time.time()\<close> in seconds. The reading
  is a real number and the product with \<^verbatim>\<open>1e6\<close> is exact here; the float product of
  the source rounds it to the nearest float.
\<close>

definition get_nonce :: "real \<Rightarrow> string" where
  "get_nonce now = str_int (int_of_float (now * 1000000))"

text \<open>\<^verbatim>\<open>s.encode('utf8')\<close> for code points below 256, as a list of byte values.\<close>

definition encode_utf8 :: "string \<Rightarrow> nat list" where
  "encode_utf8 s =
     concat (map (\<lambda>c. if (of_char c :: nat) < 128 then [of_char c]
                       else [192 + of_char c div 64, 128 + of_char c mod 64]) s)"

text \<open>
  The parameters \<^verbatim>\<open>APIPrivateCall.call\<close> sends. \<^verbatim>\<open>hmac_hexdigest key msg\<close> is
  \<^verbatim>\<open>hmac.new(key, msg=msg, digestmod=hashlib.sha256).hexdigest()\<close>, a parameter.
  \<^verbatim>\<open>params.update({...})\<close> stores \<^verbatim>\<open>key\<close>, \<^verbatim>\<open>signature\<close> and \<^verbatim>\<open>nonce\<close> in this order.
\<close>

definition signed_params ::
  "(nat list \<Rightarrow> nat list \<Rightarrow> string) \<Rightarrow> credentials \<Rightarrow> real \<Rightarrow> (string \<times> pyval) list \<Rightarrow>
   (string \<times> pyval) list" where
  "signed_params hmac_hexdigest self now params =
     (let nonce = get_nonce now;
          message = nonce @ client_id self @ api_key self;
          signature = hmac_hexdigest (encode_utf8 (api_secret self)) (encode_utf8 message);
          signature = upper signature
      in AList.update ''nonce'' (PStr nonce)
           (AList.update ''signature'' (PStr signature)
              (AList.update ''key'' (PStr (api_key self)) params)))"

definition APIPrivateCall_call ::
  "(nat list \<Rightarrow> nat list \<Rightarrow> string) \<Rightarrow> transport \<Rightarrow> (pyval \<Rightarrow> error + pyval \<times> pyval option) \<Rightarrow>
   string \<Rightarrow> string \<Rightarrow> credentials \<Rightarrow> real \<Rightarrow> string \<Rightarrow> (string \<times> pyval) list \<Rightarrow> error + pyval" where
  "APIPrivateCall_call hmac_hexdigest http hook meth url_attr self now prefix_url params =
     APICall_call http hook meth url_attr prefix_url (signed_params hmac_hexdigest self now params)"

text \<open>
  \<^verbatim>\<open>cls(...).call(prefix_url, **params)\<close> for an endpoint class: the method resolution
  picks \<^verbatim>\<open>APIPrivateCall.call\<close> for the private classes and \<^verbatim>\<open>APICall.call\<close> for the
  others, each with the hook, the method and the URL of the class.
\<close>

definition call ::
  "(nat list \<Rightarrow> nat list \<Rightarrow> string) \<Rightarrow> transport \<Rightarrow> int \<Rightarrow> credentials \<Rightarrow> real \<Rightarrow>
   api_class \<Rightarrow> string \<Rightarrow> (string \<times> pyval) list \<Rightarrow> error + pyval" where
  "call hmac_hexdigest http tz self now cls prefix_url params =
     (if is_private cls
      then APIPrivateCall_call hmac_hexdigest http (process_response tz cls) (http_method cls)
             (url cls) self now prefix_url params
      else APICall_call http (process_response tz cls) (http_method cls) (url cls)
             prefix_url params)"

section \<open>\<^verbatim>\<open>run.py\<close>: the supervisor\<close>

text \<open>
  Modelled from the spec: the worker class (\<^verbatim>\<open>connectivity/observable.py\<close>, the base of
  \<^verbatim>\<open>BitstampAPI\<close>, is not among the sources). A worker is running or dead;
  \<^verbatim>\<open>terminate()\<close> asks it to stop and \<^verbatim>\<open>join()\<close> waits until it has finished, which a
  worker that was asked does.
\<close>

record worker =
  alive :: bool
  stop_requested :: bool




text \<open>
  What the supervisor does is recorded in order: the lock of \<^verbatim>\<open>notify\<close>, the calls on
  the workers (named by their place in \<^verbatim>\<open>self.workers\<close>), the error logged for a dead
  worker, and the sleep between two checks.
\<close>

datatype event =
    Acquire
  | Handler
  | Release
  | LogDead nat
  | Terminate nat
  | Join nat
  | Sleep

record trading =
  lock_held :: bool
  workers :: "worker list"
  events :: "event list"










section \<open>\<^verbatim>\<open>run.py\<close>: the observer\<close>

text \<open>
  An exception is an instance of \<^verbatim>\<open>Exception\<close> or of another \<^verbatim>\<open>BaseException\<close> class
  (KeyboardInterrupt, SystemExit); the text is its message.
\<close>

datatype raised = Exception string | BaseException string

datatype py_type = BitstampAPI | OtherType string

text \<open>
  \<^verbatim>\<open>Trading.notify\<close>. \<^verbatim>\<open>observable_type\<close> is \<^verbatim>\<open>type(observable)\<close>; \<^verbatim>\<open>handler\<close> is how
  \<^verbatim>\<open>self.price_update_notification(observable, args, kwargs)\<close> ends for this event, it
  returns (\<^verbatim>\<open>None\<close>) or raises. \<^verbatim>\<open>self.lock.acquire()\<close> waits while the lock is held:
  in a state that holds it the call does not get past its first line (\<^verbatim>\<open>None\<close>). The
  result is the exception that leaves \<^verbatim>\<open>notify\<close>, if any, and the state it leaves.
  \<^verbatim>\<open>except Exception as e: raise e\<close> catches an \<^verbatim>\<open>Exception\<close> and raises it again;
  \<^verbatim>\<open>finally\<close> releases the lock on every way out of the \<^verbatim>\<open>try\<close>.
\<close>

definition notify :: "raised option \<Rightarrow> py_type \<Rightarrow> trading \<Rightarrow> (raised option \<times> trading) option" where
  "notify handler observable_type self =
     (if lock_held self then None
      else
        let self1 = self\<lparr>lock_held := True, events := events self @ [Acquire]\<rparr>;
            (body, self2) =
              (if observable_type = BitstampAPI
               then (handler, self1\<lparr>events := events self1 @ [Handler]\<rparr>)
               else (Some (Exception ''Unknown type.''), self1));
            leaving = (case body of
                         Some (Exception e) \<Rightarrow> Some (Exception e)
                       | other \<Rightarrow> other)
        in Some (leaving, self2\<lparr>lock_held := False, events := events self2 @ [Release]\<rparr>))"

section \<open>Notions the properties are stated with\<close>

text \<open>The digits of a hexadecimal number, written with small and with capital letters.\<close>

definition is_hex_lower :: "char \<Rightarrow> bool" where
  "is_hex_lower c = (is_digit c \<or> 97 \<le> (of_char c :: nat) \<and> (of_char c :: nat) \<le> 102)"

definition is_hex_upper :: "char \<Rightarrow> bool" where
  "is_hex_upper c = (is_digit c \<or> 65 \<le> (of_char c :: nat) \<and> (of_char c :: nat) \<le> 70)"

text \<open>
  A row of the order book as the exchange sends it, a pair of strings, and as the
  hook leaves it, a dict of two decimals.
\<close>

definition raw_row :: "string \<times> string \<Rightarrow> pyval" where
  "raw_row r = PList [PStr (fst r), PStr (snd r)]"

definition typed_row :: "decimal \<times> decimal \<Rightarrow> pyval" where
  "typed_row d = PDict [(''price'', PDecimal (fst d)), (''amount'', PDecimal (snd d))]"

definition parses_to :: "string \<times> string \<Rightarrow> decimal \<times> decimal \<Rightarrow> bool" where
  "parses_to r d = (decimal_of_str (fst r) = Inr (fst d) \<and> decimal_of_str (snd r) = Inr (snd d))"








section \<open>Properties of the timestamp conversion\<close>

lemma bindE_simps [simp]:
  "bindE (Inl e) f = Inl e"
  "bindE (Inr x) f = f x"
  by (simp_all add: bindE_def)

lemma except_ValueError_simps [simp]:
  "except_ValueError (Inr x) h = Inr x"
  "except_ValueError (Inl ValueError) h = h"
  "e \<noteq> ValueError \<Longrightarrow> except_ValueError (Inl e) h = Inl e"
  by (simp_all add: except_ValueError_def)

lemma truthy_simps [simp]:
  "truthy PNone = False"
  "truthy (PBool b) = b"
  "truthy (PInt n) = (n \<noteq> 0)"
  "truthy (PStr s) = (s \<noteq> [])"
  "truthy (PList xs) = (xs \<noteq> [])"
  "truthy (PDict kvs) = (kvs \<noteq> [])"
  "truthy (PDatetime t) = True"
  by (simp_all add: truthy_def)

lemma py_int_simps [simp]:
  "py_int (PInt n) = Inr n"
  "py_int (PStr s) = int_of_str s"
  by (simp_all add: py_int_def)





text \<open>
  C9. For each of the falsy inputs \<^verbatim>\<open>None\<close>, the empty string and the integer 0,
  \<^verbatim>\<open>dt\<close> returns \<^verbatim>\<open>None\<close>: it raises nothing and no parse decides the result. The
  timestamp 0 of the Unix epoch gives \<^verbatim>\<open>None\<close>, not a point in time.
\<close>

theorem dt_falsy_is_None:
  "dt tz PNone = Inr PNone \<and> dt tz (PStr []) = Inr PNone \<and> dt tz (PInt 0) = Inr PNone"
  by (simp add: dt_def)









lemma epoch_digits_int: "int_of_str ''1609495200'' = Inr 1609495200"
  by (simp add: int_of_str_def strip_def split_sign_def is_space_def is_digit_def
      digits_val_def digit_val_def)





section \<open>Properties of a call\<close>

lemma api_error_dict: "api_error (PDict kvs) = map_of kvs ''error''"
  by (simp add: api_error_def)

text \<open>
  C3. When the payload that comes back is a dict with a key \<^verbatim>\<open>error\<close>, the call raises
  APIError with the value stored under that key, unchanged, whatever the hook of the
  endpoint is (also a hook that would raise): the hook is not run on such a payload.
  This holds for \<^verbatim>\<open>APICall.call\<close> with either method and for the call of every
  endpoint class, public or private.
\<close>

theorem api_error_raised_before_hook:
  "map_of kvs ''error'' = Some err \<Longrightarrow>
   ((meth = ''get'' \<and> http GET (prefix_url @ url_attr) params = Inr (PDict kvs)
      \<or> meth = ''post'' \<and> http POST (prefix_url @ url_attr) params = Inr (PDict kvs))
     \<longrightarrow> APICall_call http hook meth url_attr prefix_url params = Inl (APIError err))
   \<and> (http (if is_private cls then POST else GET) (prefix_url @ url cls)
         (if is_private cls then signed_params hmac_hexdigest self now params else params)
        = Inr (PDict kvs)
       \<longrightarrow> call hmac_hexdigest http tz self now cls prefix_url params = Inl (APIError err))"
  by (auto simp: APICall_call_def call_def APIPrivateCall_call_def http_method_def api_error_dict)

theorem api_error_raised_before_hook_witness:
  "map_of [(''error'', PStr ''Insufficient funds'')] ''error'' = Some (PStr ''Insufficient funds'')
   \<and> call (\<lambda>k m. ''ab'') (\<lambda>verb u p. Inr (PDict [(''error'', PStr ''Insufficient funds'')])) 0
     \<lparr>client_id = ''1'', api_key = ''k'', api_secret = ''s''\<rparr> 0
     APIBuyLimitOrderBTCEURCall ''https://www.bitstamp.net/api/v2/'' [(''amount'', PStr ''1'')]
   = Inl (APIError (PStr ''Insufficient funds''))
   \<and> APICall_call (\<lambda>verb u p. Inr (PDict [(''error'', PStr ''Insufficient funds'')]))
       (\<lambda>response. Inl TypeError) ''get'' ''ticker/btceur/'' ''https://www.bitstamp.net/api/v2/'' []
   = Inl (APIError (PStr ''Insufficient funds''))"
proof -
  have m: "map_of [(''error'', PStr ''Insufficient funds'')] ''error'' = Some (PStr ''Insufficient funds'')"
    by simp
  note w = api_error_raised_before_hook [OF m,
      where http = "\<lambda>verb u p. Inr (PDict [(''error'', PStr ''Insufficient funds'')])"]
  have a: "call (\<lambda>k m. ''ab'') (\<lambda>verb u p. Inr (PDict [(''error'', PStr ''Insufficient funds'')])) 0
     \<lparr>client_id = ''1'', api_key = ''k'', api_secret = ''s''\<rparr> 0
     APIBuyLimitOrderBTCEURCall ''https://www.bitstamp.net/api/v2/'' [(''amount'', PStr ''1'')]
   = Inl (APIError (PStr ''Insufficient funds''))"
    using w [THEN conjunct2] by blast
  have b: "APICall_call (\<lambda>verb u p. Inr (PDict [(''error'', PStr ''Insufficient funds'')]))
       (\<lambda>response. Inl TypeError) ''get'' ''ticker/btceur/'' ''https://www.bitstamp.net/api/v2/'' []
   = Inl (APIError (PStr ''Insufficient funds''))"
    using w [where meth = "''get''", THEN conjunct1] by blast
  from m a b show ?thesis by blast
qed

lemma map_of_signed_params:
  "map_of (signed_params H self now params) =
     (map_of params)
       (''key'' \<mapsto> PStr (api_key self),
        ''signature'' \<mapsto>
           PStr (upper (H (encode_utf8 (api_secret self))
                          (encode_utf8 (get_nonce now @ client_id self @ api_key self)))),
        ''nonce'' \<mapsto> PStr (get_nonce now))"
  by (simp add: signed_params_def Let_def update_conv')

lemma upper_char_hex: "is_hex_lower c \<Longrightarrow> is_hex_upper (upper_char c)"
  by (auto simp: is_hex_lower_def is_hex_upper_def upper_char_def is_digit_def)

lemma upper_hex: "list_all is_hex_lower h \<Longrightarrow> list_all is_hex_upper (upper h)"
  by (induction h) (simp_all add: upper_def upper_char_hex)

text \<open>
  C5. The parameters a private call sends hold, under \<^verbatim>\<open>key\<close>, \<^verbatim>\<open>signature\<close> and
  \<^verbatim>\<open>nonce\<close>, the API key, the upper-cased hexadecimal HMAC-SHA256 digest of the UTF-8
  bytes of nonce + client id + API key under the UTF-8 bytes of the secret, and the
  nonce; a value the caller passed under one of these names is replaced and every
  other parameter is kept. An upper-cased lowercase-hexadecimal digest is an uppercase
  hexadecimal string. The signature is a function of the nonce and the credentials
  alone, and these are the parameters the call of a private class hands to the
  transport.
\<close>

theorem private_call_signature:
  "map_of (signed_params hmac_hexdigest self now params) ''key'' = Some (PStr (api_key self))
   \<and> map_of (signed_params hmac_hexdigest self now params) ''signature'' =
       Some (PStr (upper (hmac_hexdigest (encode_utf8 (api_secret self))
                            (encode_utf8 (get_nonce now @ client_id self @ api_key self)))))
   \<and> map_of (signed_params hmac_hexdigest self now params) ''nonce'' = Some (PStr (get_nonce now))
   \<and> (k \<noteq> ''key'' \<and> k \<noteq> ''signature'' \<and> k \<noteq> ''nonce'' \<longrightarrow>
        map_of (signed_params hmac_hexdigest self now params) k = map_of params k)
   \<and> (list_all is_hex_lower
         (hmac_hexdigest (encode_utf8 (api_secret self))
            (encode_utf8 (get_nonce now @ client_id self @ api_key self))) \<longrightarrow>
       list_all is_hex_upper
         (upper (hmac_hexdigest (encode_utf8 (api_secret self))
            (encode_utf8 (get_nonce now @ client_id self @ api_key self)))))
   \<and> (is_private cls \<longrightarrow>
        call hmac_hexdigest http tz self now cls prefix_url params =
        APICall_call http (process_response tz cls) ''post'' (url cls) prefix_url
          (signed_params hmac_hexdigest self now params))"
  by (simp add: map_of_signed_params upper_hex call_def APIPrivateCall_call_def http_method_def)


lemma char_of_eq_iff: "n < 256 \<Longrightarrow> (char_of (n::nat) = c) = (n = of_char c)"
  by (metis char_of_char of_char_of mod_less)

lemma get_nonce_example: "get_nonce (3 / 2) = ''1500000''"
  by (simp add: get_nonce_def int_of_float_def str_int_def str_nat.simps digit_char_def char_of_eq_iff)

theorem private_call_signature_witness:
  "map_of (signed_params (\<lambda>key msg. ''0a1f'') \<lparr>client_id = ''42'', api_key = ''KEY'', api_secret = ''SECRET''\<rparr>
            (3 / 2) [(''amount'', PStr ''1''), (''nonce'', PStr ''7'')]) ''nonce'' = Some (PStr ''1500000'')
   \<and> map_of (signed_params (\<lambda>key msg. ''0a1f'') \<lparr>client_id = ''42'', api_key = ''KEY'', api_secret = ''SECRET''\<rparr>
            (3 / 2) [(''amount'', PStr ''1''), (''nonce'', PStr ''7'')]) ''signature'' = Some (PStr ''0A1F'')
   \<and> map_of (signed_params (\<lambda>key msg. ''0a1f'') \<lparr>client_id = ''42'', api_key = ''KEY'', api_secret = ''SECRET''\<rparr>
            (3 / 2) [(''amount'', PStr ''1''), (''nonce'', PStr ''7'')]) ''key'' = Some (PStr ''KEY'')
   \<and> map_of (signed_params (\<lambda>key msg. ''0a1f'') \<lparr>client_id = ''42'', api_key = ''KEY'', api_secret = ''SECRET''\<rparr>
            (3 / 2) [(''amount'', PStr ''1''), (''nonce'', PStr ''7'')]) ''amount'' = Some (PStr ''1'')
   \<and> list_all is_hex_lower ''0a1f'' \<and> list_all is_hex_upper (upper ''0a1f'')
   \<and> is_private APIAccountBalanceCall"
  using private_call_signature [where hmac_hexdigest = "\<lambda>key msg. ''0a1f''"
      and self = "\<lparr>client_id = ''42'', api_key = ''KEY'', api_secret = ''SECRET''\<rparr>"
      and now = "3 / 2" and params = "[(''amount'', PStr ''1''), (''nonce'', PStr ''7'')]"
      and k = "''amount''" and cls = APIAccountBalanceCall]
  by (simp add: get_nonce_example upper_def upper_char_def is_hex_lower_def is_digit_def
      is_private_def char_of_eq_iff)

section \<open>Properties of the response hooks\<close>

lemmas container_defs =
  getitem_def setitem_def getitem0_def contains_def coerce_def coerce_if_present_def

text \<open>
  C4. The hooks of the buy and of the sell endpoint on the payload of a rejected order,
  \<^verbatim>\<open>{"status": "error", "reason": {"__all__": ["Minimum order size is 5.0 EUR."]}}\<close>:
  the sell hook leaves \<^verbatim>\<open>reason\<close> as the nested structure, the buy hook puts the first
  reason string there.
\<close>

theorem sell_keeps_nested_reason:
  "process_response 0 APISellLimitBTCEUROrderCall
     (PDict [(''status'', PStr ''error''),
             (''reason'', PDict [(''__all__'', PList [PStr ''Minimum order size is 5.0 EUR.''])])])
   = Inr (PDict [(''status'', PStr ''error''),
                 (''reason'', PDict [(''__all__'', PList [PStr ''Minimum order size is 5.0 EUR.''])])],
          None)
   \<and> process_response 0 APIBuyLimitOrderBTCEURCall
     (PDict [(''status'', PStr ''error''),
             (''reason'', PDict [(''__all__'', PList [PStr ''Minimum order size is 5.0 EUR.''])])])
   = Inr (PDict [(''status'', PStr ''error''),
                 (''reason'', PStr ''Minimum order size is 5.0 EUR.'')],
          None)"
  by (simp add: process_response_def in_place_def APISellLimitBTCEUROrderCall_process_response_def
      APIBuyLimitOrderBTCEURCall_process_response_def container_defs first_reason_def)

lemma coerce_dict:
  "coerce f k (PDict kvs) =
     (case map_of kvs k of
        None \<Rightarrow> Inl (KeyError (PStr k))
      | Some v \<Rightarrow> bindE (f v) (\<lambda>w. Inr (PDict (AList.update k w kvs))))"
  by (simp add: coerce_def getitem_def setitem_def split: option.splits)

lemma book_row_raw:
  "parses_to r d \<Longrightarrow> book_row (raw_row r) = Inr (typed_row d)"
  by (simp add: parses_to_def book_row_def raw_row_def typed_row_def py_iter_def Decimal_def)

lemma mapE_book_rows:
  "list_all2 parses_to rs ds \<Longrightarrow> mapE book_row (map raw_row rs) = Inr (map typed_row ds)"
  by (induction rule: list_all2_induct) (simp_all add: book_row_raw)

lemma book_side_raw:
  "list_all2 parses_to rs ds \<Longrightarrow> book_side (PList (map raw_row rs)) = Inr (PList (map typed_row ds))"
  by (simp add: book_side_def py_iter_def mapE_book_rows)

lemma decimal_100_5: "decimal_of_str ''100.5'' = Inr (Dec False 1005 (- 1))" by code_simp
lemma decimal_2_0: "decimal_of_str ''2.0'' = Inr (Dec False 20 (- 1))" by code_simp
lemma decimal_101_0: "decimal_of_str ''101.0'' = Inr (Dec False 1010 (- 1))" by code_simp
lemma decimal_1_5: "decimal_of_str ''1.5'' = Inr (Dec False 15 (- 1))" by code_simp

text \<open>
  C7. On an order book whose timestamp converts and whose bids and asks are rows of
  two strings that are decimals, the hook stores the converted timestamp and, for bids
  and for asks, the list of the rows in the same order and of the same length, each
  row now holding the decimal of its price and of its amount, every digit kept. For
  bids \<^verbatim>\<open>[["100.5","2.0"]]\<close> and asks \<^verbatim>\<open>[["101.0","1.5"]]\<close> the decimals are 100.5 and
  2.0, and 101.0 and 1.5.
\<close>

theorem order_book_rows:
  "map_of kvs ''timestamp'' = Some ts \<Longrightarrow> dt tz ts = Inr t \<Longrightarrow>
   map_of kvs ''bids'' = Some (PList (map raw_row bids)) \<Longrightarrow> list_all2 parses_to bids bids' \<Longrightarrow>
   map_of kvs ''asks'' = Some (PList (map raw_row asks)) \<Longrightarrow> list_all2 parses_to asks asks' \<Longrightarrow>
   APIOrderBookCall_process_response tz (PDict kvs) =
     Inr (PDict (AList.update ''asks'' (PList (map typed_row asks'))
                  (AList.update ''bids'' (PList (map typed_row bids'))
                    (AList.update ''timestamp'' t kvs))))
   \<and> length bids' = length bids \<and> length asks' = length asks
   \<and> (bids = [(''100.5'', ''2.0'')] \<longrightarrow> bids' = [(Dec False 1005 (- 1), Dec False 20 (- 1))])
   \<and> (asks = [(''101.0'', ''1.5'')] \<longrightarrow> asks' = [(Dec False 1010 (- 1), Dec False 15 (- 1))])
   \<and> dec_value (Dec False 1005 (- 1)) = Some (201 / 2) \<and> dec_value (Dec False 20 (- 1)) = Some 2
   \<and> dec_value (Dec False 1010 (- 1)) = Some 101 \<and> dec_value (Dec False 15 (- 1)) = Some (3 / 2)"
proof -
  assume ts: "map_of kvs ''timestamp'' = Some ts" and t: "dt tz ts = Inr t"
    and b: "map_of kvs ''bids'' = Some (PList (map raw_row bids))" and pb: "list_all2 parses_to bids bids'"
    and a: "map_of kvs ''asks'' = Some (PList (map raw_row asks))" and pa: "list_all2 parses_to asks asks'"
  have r: "APIOrderBookCall_process_response tz (PDict kvs) =
     Inr (PDict (AList.update ''asks'' (PList (map typed_row asks'))
                  (AList.update ''bids'' (PList (map typed_row bids'))
                    (AList.update ''timestamp'' t kvs))))"
    by (simp add: APIOrderBookCall_process_response_def coerce_dict update_conv' ts t b a
        book_side_raw [OF pb] book_side_raw [OF pa])
  have l: "length bids' = length bids \<and> length asks' = length asks"
    using pb pa by (simp add: list_all2_lengthD)
  have eb: "bids = [(''100.5'', ''2.0'')] \<longrightarrow> bids' = [(Dec False 1005 (- 1), Dec False 20 (- 1))]"
    using pb by (auto simp: list_all2_Cons1 parses_to_def decimal_100_5 decimal_2_0)
  have ea: "asks = [(''101.0'', ''1.5'')] \<longrightarrow> asks' = [(Dec False 1010 (- 1), Dec False 15 (- 1))]"
    using pa by (auto simp: list_all2_Cons1 parses_to_def decimal_101_0 decimal_1_5)
  have v: "dec_value (Dec False 1005 (- 1)) = Some (201 / 2) \<and> dec_value (Dec False 20 (- 1)) = Some 2
   \<and> dec_value (Dec False 1010 (- 1)) = Some 101 \<and> dec_value (Dec False 15 (- 1)) = Some (3 / 2)"
    by (simp add: dec_value_def)
  from r l eb ea v show ?thesis by blast
qed


lemma dt_epoch_digits: "dt 0 (PStr ''1609495200'') = Inr (PDatetime 1609495200)"
  by (simp add: dt_def epoch_digits_int fromtimestamp_def)

theorem order_book_rows_witness:
  "APIOrderBookCall_process_response 0
     (PDict [(''timestamp'', PStr ''1609495200''),
             (''bids'', PList [PList [PStr ''100.5'', PStr ''2.0'']]),
             (''asks'', PList [PList [PStr ''101.0'', PStr ''1.5'']])])
   = Inr (PDict [(''timestamp'', PDatetime 1609495200),
                 (''bids'', PList [PDict [(''price'', PDecimal (Dec False 1005 (- 1))),
                                          (''amount'', PDecimal (Dec False 20 (- 1)))]]),
                 (''asks'', PList [PDict [(''price'', PDecimal (Dec False 1010 (- 1))),
                                          (''amount'', PDecimal (Dec False 15 (- 1)))]])])"
proof -
  have pb: "list_all2 parses_to [(''100.5'', ''2.0'')] [(Dec False 1005 (- 1), Dec False 20 (- 1))]"
    by (simp add: parses_to_def decimal_100_5 decimal_2_0)
  have pa: "list_all2 parses_to [(''101.0'', ''1.5'')] [(Dec False 1010 (- 1), Dec False 15 (- 1))]"
    by (simp add: parses_to_def decimal_101_0 decimal_1_5)
  show ?thesis
    using order_book_rows [where tz = 0 and ts = "PStr ''1609495200''"
        and t = "PDatetime 1609495200"
        and kvs = "[(''timestamp'', PStr ''1609495200''),
             (''bids'', PList [PList [PStr ''100.5'', PStr ''2.0'']]),
             (''asks'', PList [PList [PStr ''101.0'', PStr ''1.5'']])]",
        OF _ dt_epoch_digits _ pb _ pa]
    by (simp add: raw_row_def typed_row_def)
qed

section \<open>Properties of the nonce\<close>





















section \<open>Properties of the supervisor and of the observer\<close>











text \<open>
  C10. A call of \<^verbatim>\<open>notify\<close> that finds the lock free takes it first and gives it back
  last, on each path: when the handler returns, when the handler raises (the exception
  leaves \<^verbatim>\<open>notify\<close>), and when the source is no \<^verbatim>\<open>BitstampAPI\<close> (the exception
  \<^verbatim>\<open>Unknown type.\<close> leaves \<^verbatim>\<open>notify\<close>, and the handler is not run). The lock is free
  afterwards.
\<close>

theorem notify_releases_lock:
  "\<not> lock_held self \<Longrightarrow>
   notify None BitstampAPI self =
     Some (None, self\<lparr>events := events self @ [Acquire, Handler, Release]\<rparr>)
   \<and> notify (Some e) BitstampAPI self =
     Some (Some e, self\<lparr>events := events self @ [Acquire, Handler, Release]\<rparr>)
   \<and> notify handler (OtherType n) self =
     Some (Some (Exception ''Unknown type.''), self\<lparr>events := events self @ [Acquire, Release]\<rparr>)
   \<and> (\<exists>leaving self'. notify handler observable_type self = Some (leaving, self')
         \<and> \<not> lock_held self'
         \<and> (\<exists>between. events self' = events self @ [Acquire] @ between @ [Release]))"
  by (cases e) (auto simp: notify_def Let_def split: raised.splits option.splits)

theorem notify_releases_lock_witness:
  "\<not> lock_held \<lparr>lock_held = False, workers = [], events = []\<rparr>
   \<and> notify None BitstampAPI \<lparr>lock_held = False, workers = [], events = []\<rparr>
       = Some (None, \<lparr>lock_held = False, workers = [], events = [Acquire, Handler, Release]\<rparr>)
   \<and> notify (Some (Exception ''boom'')) BitstampAPI \<lparr>lock_held = False, workers = [], events = []\<rparr>
       = Some (Some (Exception ''boom''),
               \<lparr>lock_held = False, workers = [], events = [Acquire, Handler, Release]\<rparr>)
   \<and> notify None (OtherType ''str'') \<lparr>lock_held = False, workers = [], events = []\<rparr>
       = Some (Some (Exception ''Unknown type.''),
               \<lparr>lock_held = False, workers = [], events = [Acquire, Release]\<rparr>)"
  using notify_releases_lock [where self = "\<lparr>lock_held = False, workers = [], events = []\<rparr>"
      and e = "Exception ''boom''" and handler = None and n = "''str''"]
  by simp

section \<open>Properties of the decimal fields\<close>








lemma point_plain:
  "lower_char CHR ''.'' = CHR ''.'' \<and> \<not> is_space CHR ''.'' \<and> \<not> is_digit CHR ''.''"
  by (simp add: lower_char_def is_space_def is_digit_def)





































end
